theory Spec2Isabelle
  imports Complex_Main "HOL-Library.Multiset"
begin

section \<open>The host engine's interface, as both algorithms use it\<close>

text \<open>
  The two Python files are clients of the trading engine: they read the objects the engine
  hands them and call back into it. Only the part of that interface the files touch is
  modelled: symbols, the patent record, the portfolio's holdings, and the outbound calls
  \<open>SetHoldings\<close>, \<open>Debug\<close> and \<open>Log\<close>. Python floats (weights, \<open>TechDiversity\<close>,
  quantities) are taken as real numbers; the integer counts are \<open>int\<close>.
\<close>

datatype symbol = Equity string | CustomData string symbol

text \<open>
  An f-string is the sequence of its literal parts and interpolated values; a line
  contains an interpolated value when the corresponding piece is a member of it.
\<close>

datatype piece = Lit string | SymV symbol | IntV int | NumV real

type_synonym fstring = "piece list"

datatype call = SetHoldingsC symbol real | DebugC fstring | LogC fstring

datatype Resolution = Tick | Second | Minute | Hour | Daily

datatype OrderStatus =
  New | Submitted | PartiallyFilled | Filled | Canceled | NoStatus | Invalid
  | CancelPending | UpdateSubmitted

datatype error = DataKeyNotFound symbol | SecurityKeyNotFound symbol

text \<open>Every object the files read \<open>.Symbol\<close> from: a security, a patent record, an order event.\<close>

record Security =
  Symbol :: symbol

record GrantedPatentsData = Security +
  PatentsFiled :: int
  CumulativePatents :: int
  TechDiversity :: real
  Patents90d :: int

record OrderEvent = Security +
  Status :: OrderStatus
  FillQuantity :: real

record SecurityChanges =
  AddedSecurities :: "Security list"
  RemovedSecurities :: "Security list"

text \<open>
  The algorithm object \<open>self\<close>: the settings \<open>Initialize\<close> writes, the portfolio (the
  quantity held per security, owned by the engine and read by the callbacks), and the
  calls made to the engine so far, in order.
\<close>

record QCAlgorithm =
  StartDate :: "nat \<times> nat \<times> nat"
  EndDate :: "nat \<times> nat \<times> nat"
  Cash :: int
  UniverseSettings_Resolution :: Resolution
  Portfolio :: "(symbol \<times> real) list"
  calls :: "call list"

record GrantedPatentsDataAlgorithm = QCAlgorithm +
  equity_symbol :: symbol
  patent_data_symbol :: symbol

definition SetHoldings :: "'a QCAlgorithm_scheme \<Rightarrow> symbol \<Rightarrow> real \<Rightarrow> 'a QCAlgorithm_scheme" where
  "SetHoldings self s w = self\<lparr>calls := calls self @ [SetHoldingsC s w]\<rparr>"

definition Debug :: "'a QCAlgorithm_scheme \<Rightarrow> fstring \<Rightarrow> 'a QCAlgorithm_scheme" where
  "Debug self line = self\<lparr>calls := calls self @ [DebugC line]\<rparr>"

definition Log :: "'a QCAlgorithm_scheme \<Rightarrow> fstring \<Rightarrow> 'a QCAlgorithm_scheme" where
  "Log self line = self\<lparr>calls := calls self @ [LogC line]\<rparr>"

text \<open>\<open>SecurityHolding.Invested\<close>: a non-zero quantity is held.\<close>

definition Invested :: "real \<Rightarrow> bool" where
  "Invested quantity = (quantity \<noteq> 0)"

text \<open>\<open>Portfolio.Invested\<close>: some security of the portfolio is invested.\<close>

definition Portfolio_Invested :: "(symbol \<times> real) list \<Rightarrow> bool" where
  "Portfolio_Invested p = list_ex (\<lambda>(s, quantity). Invested quantity) p"

text \<open>\<open>Portfolio[symbol]\<close>: the holding of a security, an error for an unknown symbol.\<close>

definition Portfolio_getitem :: "(symbol \<times> real) list \<Rightarrow> symbol \<Rightarrow> error + real" where
  "Portfolio_getitem p s =
     (case map_of p s of None \<Rightarrow> Inl (SecurityKeyNotFound s) | Some quantity \<Rightarrow> Inr quantity)"

text \<open>
  \<open>data[symbol]\<close> on the dictionary \<open>slice.Get(GrantedPatentsData)\<close> returns: the engine's
  dictionary raises for a missing key.
\<close>

definition DataDictionary_getitem ::
  "(symbol \<times> GrantedPatentsData) list \<Rightarrow> symbol \<Rightarrow> error + GrantedPatentsData" where
  "DataDictionary_getitem data s =
     (case map_of data s of None \<Rightarrow> Inl (DataKeyNotFound s) | Some d \<Rightarrow> Inr d)"

section \<open>Demonstration.py: the single-security algorithm\<close>

text \<open>
  \<open>Initialize\<close> keeps the symbol of the equity \<open>AddEquity\<close> subscribes and the symbol of
  the custom data \<open>AddData\<close> attaches to it; the second is a different symbol, with the
  equity as its underlying.
\<close>

definition GrantedPatentsDataAlgorithm_Initialize ::
  "GrantedPatentsDataAlgorithm \<Rightarrow> GrantedPatentsDataAlgorithm" where
  "GrantedPatentsDataAlgorithm_Initialize self =
     (let self = self\<lparr>StartDate := (2010, 1, 1)\<rparr>;
          self = self\<lparr>EndDate := (2025, 12, 31)\<rparr>;
          self = self\<lparr>equity_symbol := Equity ''AAPL''\<rparr>;
          self = self\<lparr>patent_data_symbol :=
                   CustomData ''GrantedPatentsData'' (equity_symbol self)\<rparr>
      in self)"

text \<open>
  \<open>OnData\<close>, given the dictionary \<open>slice.Get(GrantedPatentsData)\<close>. An empty dictionary is
  falsy. The \<open>elif\<close> evaluates \<open>self.Portfolio[self.equity_symbol]\<close> only when
  \<open>CumulativePatents > 0\<close>, and its body is \<open>pass\<close>.
\<close>

definition GrantedPatentsDataAlgorithm_OnData ::
  "GrantedPatentsDataAlgorithm \<Rightarrow> (symbol \<times> GrantedPatentsData) list
     \<Rightarrow> error + GrantedPatentsDataAlgorithm" where
  "GrantedPatentsDataAlgorithm_OnData self data =
     (if data \<noteq> [] then
        (case DataDictionary_getitem data (patent_data_symbol self) of
           Inl e \<Rightarrow> Inl e
         | Inr patent_data \<Rightarrow>
            (if PatentsFiled patent_data > 0 then
               (let weight = (if TechDiversity patent_data > 0.5 then 1.0 else 0.5) in
                if \<not> Portfolio_Invested (Portfolio self) then
                  (let self = SetHoldings self (equity_symbol self) weight;
                       self = Debug self
                         [Lit ''Bought '', SymV (equity_symbol self),
                          Lit '' - Patents Filed: '', IntV (PatentsFiled patent_data),
                          Lit '', Tech Diversity: '', NumV (TechDiversity patent_data)]
                   in Inr self)
                else Inr self)
             else if CumulativePatents patent_data > 0 then
               (case Portfolio_getitem (Portfolio self) (equity_symbol self) of
                  Inl e \<Rightarrow> Inl e
                | Inr holding \<Rightarrow> (if Invested holding then Inr self else Inr self))
             else Inr self))
      else Inr self)"

definition GrantedPatentsDataAlgorithm_OnOrderEvent ::
  "GrantedPatentsDataAlgorithm \<Rightarrow> OrderEvent \<Rightarrow> GrantedPatentsDataAlgorithm" where
  "GrantedPatentsDataAlgorithm_OnOrderEvent self orderEvent =
     (if Status orderEvent = Filled then
        Debug self [Lit ''Order Filled: '', SymV (Symbol orderEvent),
                    Lit '' - Quantity: '', NumV (FillQuantity orderEvent)]
      else self)"

section \<open>DemonstrationUniverse.py: the universe-selection algorithm\<close>

text \<open>
  \<open>Initialize\<close>, given what \<open>self.History(universe, TimeSpan(1, 0, 0, 0))\<close> returned: one
  collection of universe records per day.
\<close>

definition GrantedPatentsDataUniverseAlgorithm_Initialize ::
  "QCAlgorithm \<Rightarrow> GrantedPatentsData list list \<Rightarrow> QCAlgorithm" where
  "GrantedPatentsDataUniverseAlgorithm_Initialize self history =
     (let self = self\<lparr>UniverseSettings_Resolution := Daily\<rparr>;
          self = self\<lparr>StartDate := (2022, 2, 14)\<rparr>;
          self = self\<lparr>EndDate := (2022, 2, 18)\<rparr>;
          self = self\<lparr>Cash := 100000\<rparr>;
          self = (if length history \<noteq> 1 then
                    Log self [Lit ''Warning: Expected 1 day of historical data, got '',
                              IntV (int (length history))]
                  else self)
      in foldl (\<lambda>self dataForDate.
                  Log self [Lit ''Historical universe contains '',
                            IntV (int (length dataForDate)), Lit '' stocks''])
           self history)"

text \<open>
  \<open>list.sort(key=..., reverse=True)\<close>: the list is reversed, sorted by a stable ascending
  sort, and reversed again, which keeps equal keys in their original order.
\<close>

definition list_sort_reverse :: "('a \<Rightarrow> 'k::linorder) \<Rightarrow> 'a list \<Rightarrow> 'a list" where
  "list_sort_reverse key xs = rev (sort_key key (rev xs))"

text \<open>The local variable \<open>selected\<close> of \<open>UniverseSelection\<close>, after the sort.\<close>

definition selected :: "GrantedPatentsData list \<Rightarrow> GrantedPatentsData list" where
  "selected data =
     list_sort_reverse (\<lambda>x. TechDiversity x)
       [d \<leftarrow> data. Patents90d d > 0 \<and> TechDiversity d > 0.5 \<and> CumulativePatents d > 10]"

definition GrantedPatentsDataUniverseAlgorithm_UniverseSelection ::
  "QCAlgorithm \<Rightarrow> GrantedPatentsData list \<Rightarrow> QCAlgorithm \<times> symbol list" where
  "GrantedPatentsDataUniverseAlgorithm_UniverseSelection self data =
     (let self = foldl (\<lambda>self datum.
                    Log self [SymV (Symbol datum), Lit '' - Patents Filed: '',
                              IntV (PatentsFiled datum), Lit '', Tech Diversity: '',
                              NumV (TechDiversity datum), Lit '', 90d Patents: '',
                              IntV (Patents90d datum)])
                  self data
      in (self, [Symbol d. d \<leftarrow> selected data]))"

definition GrantedPatentsDataUniverseAlgorithm_OnSecuritiesChanged ::
  "QCAlgorithm \<Rightarrow> SecurityChanges \<Rightarrow> QCAlgorithm" where
  "GrantedPatentsDataUniverseAlgorithm_OnSecuritiesChanged self changes =
     (let self = Log self [Lit ''Universe changed - Added: '',
                           IntV (int (length (AddedSecurities changes))),
                           Lit '', Removed: '',
                           IntV (int (length (RemovedSecurities changes)))]
      in if length (AddedSecurities changes) > 0 then
           (let weight = 1.0 / real (length (AddedSecurities changes)) in
            foldl (\<lambda>self security. SetHoldings self (Symbol security) weight)
              self (AddedSecurities changes))
         else self)"

section \<open>Observing a callback\<close>

text \<open>The calls a callback added, given the algorithm before and after it.\<close>

definition issued :: "'a QCAlgorithm_scheme \<Rightarrow> 'a QCAlgorithm_scheme \<Rightarrow> call list" where
  "issued self self' = drop (length (calls self)) (calls self')"

text \<open>The set-target-holdings commands among a sequence of calls, in order.\<close>

fun SetHoldings_calls :: "call list \<Rightarrow> (symbol \<times> real) list" where
  "SetHoldings_calls [] = []"
| "SetHoldings_calls (SetHoldingsC s w # cs) = (s, w) # SetHoldings_calls cs"
| "SetHoldings_calls (c # cs) = SetHoldings_calls cs"

text \<open>A position in one security: \<open>Portfolio[symbol].Invested\<close>, false for an unknown symbol.\<close>

definition holds_position :: "(symbol \<times> real) list \<Rightarrow> symbol \<Rightarrow> bool" where
  "holds_position p s = (case map_of p s of None \<Rightarrow> False | Some quantity \<Rightarrow> Invested quantity)"

section \<open>Example inputs\<close>

text \<open>The single-security algorithm after \<open>Initialize\<close>, with a given portfolio and no call made.\<close>

definition example_algorithm :: "(symbol \<times> real) list \<Rightarrow> GrantedPatentsDataAlgorithm" where
  "example_algorithm p =
     GrantedPatentsDataAlgorithm_Initialize
       \<lparr>StartDate = (0, 0, 0), EndDate = (0, 0, 0), Cash = 100000,
        UniverseSettings_Resolution = Minute, Portfolio = p, calls = [],
        equity_symbol = Equity [], patent_data_symbol = Equity []\<rparr>"

definition example_record :: "int \<Rightarrow> int \<Rightarrow> real \<Rightarrow> GrantedPatentsData" where
  "example_record filed cumulative diversity =
     \<lparr>Symbol = CustomData ''GrantedPatentsData'' (Equity ''AAPL''), PatentsFiled = filed,
      CumulativePatents = cumulative, TechDiversity = diversity, Patents90d = filed\<rparr>"

definition example_slice :: "GrantedPatentsData \<Rightarrow> (symbol \<times> GrantedPatentsData) list" where
  "example_slice r = [(Symbol r, r)]"

definition example_order_event :: "OrderStatus \<Rightarrow> OrderEvent" where
  "example_order_event st = \<lparr>Symbol = Equity ''AAPL'', Status = st, FillQuantity = 25\<rparr>"

text \<open>The universe algorithm with given calls made so far, and a batch of five candidates.\<close>

definition example_universe_algorithm :: "call list \<Rightarrow> QCAlgorithm" where
  "example_universe_algorithm cs =
     \<lparr>StartDate = (0, 0, 0), EndDate = (0, 0, 0), Cash = 0,
      UniverseSettings_Resolution = Minute, Portfolio = [], calls = cs\<rparr>"

definition example_datum :: "string \<Rightarrow> int \<Rightarrow> real \<Rightarrow> int \<Rightarrow> GrantedPatentsData" where
  "example_datum ticker p90 diversity cumulative =
     \<lparr>Symbol = Equity ticker, PatentsFiled = 0, CumulativePatents = cumulative,
      TechDiversity = diversity, Patents90d = p90\<rparr>"

definition example_batch :: "GrantedPatentsData list" where
  "example_batch =
     [example_datum ''C'' 1 0.6 15, example_datum ''A'' 2 0.7 20, example_datum ''B'' 0 0.9 50,
      example_datum ''D'' 3 0.7 11, example_datum ''E'' 4 0.8 10]"

definition example_changes :: SecurityChanges where
  "example_changes =
     \<lparr>AddedSecurities = [\<lparr>Symbol = Equity ''A''\<rparr>, \<lparr>Symbol = Equity ''D''\<rparr>,
                         \<lparr>Symbol = Equity ''C''\<rparr>],
      RemovedSecurities = [\<lparr>Symbol = Equity ''B''\<rparr>]\<rparr>"

definition example_removals :: SecurityChanges where
  "example_removals = \<lparr>AddedSecurities = [], RemovedSecurities = [\<lparr>Symbol = Equity ''B''\<rparr>]\<rparr>"

section \<open>Properties of the single-security algorithm\<close>

text \<open>
  When the subscribed equity is the only security of the portfolio, the portfolio is
  invested exactly when a position in that equity is held.
\<close>

lemma Portfolio_Invested_single:
  "Portfolio_Invested [(s, quantity)] = holds_position [(s, quantity)] s"
  by (simp add: Portfolio_Invested_def holds_position_def)

text \<open>
  C1, as amended: for a record delivered under the subscribed patent-data symbol with
  \<open>PatentsFiled > 0\<close>, \<open>OnData\<close> takes the weight 1 if \<open>TechDiversity > 1/2\<close> and 1/2
  otherwise, and calls \<open>SetHoldings\<close> for the subscribed equity with exactly that weight
  (followed by one debug line) if and only if the portfolio as a whole is not invested, that
  is, no security of the portfolio has a non-zero holding. Otherwise it makes no call.
\<close>

theorem OnData_patents_filed:
  assumes "map_of data (patent_data_symbol self) = Some r" and "PatentsFiled r > 0"
  shows "GrantedPatentsDataAlgorithm_OnData self data =
     Inr (if Portfolio_Invested (Portfolio self) then self
          else self\<lparr>calls := calls self @
                 [SetHoldingsC (equity_symbol self) (if TechDiversity r > 1/2 then 1 else 1/2),
                  DebugC [Lit ''Bought '', SymV (equity_symbol self),
                          Lit '' - Patents Filed: '', IntV (PatentsFiled r),
                          Lit '', Tech Diversity: '', NumV (TechDiversity r)]]\<rparr>)"
proof -
  from assms(1) have "data \<noteq> []" by auto
  with assms show ?thesis
    by (simp add: GrantedPatentsDataAlgorithm_OnData_def DataDictionary_getitem_def
        SetHoldings_def Debug_def)
qed

text \<open>
  Three runs of the theorem: high diversity and nothing held (weight 1), diversity exactly
  1/2 and nothing held (weight 1/2), and a position already held (no call).
\<close>

theorem OnData_patents_filed_witness:
  "GrantedPatentsDataAlgorithm_OnData (example_algorithm [(Equity ''AAPL'', 0)])
      (example_slice (example_record 5 100 0.8))
    = Inr ((example_algorithm [(Equity ''AAPL'', 0)])
        \<lparr>calls := [SetHoldingsC (Equity ''AAPL'') 1,
                   DebugC [Lit ''Bought '', SymV (Equity ''AAPL''), Lit '' - Patents Filed: '',
                           IntV 5, Lit '', Tech Diversity: '', NumV 0.8]]\<rparr>)
   \<and> GrantedPatentsDataAlgorithm_OnData (example_algorithm [(Equity ''AAPL'', 0)])
      (example_slice (example_record 1 100 0.5))
    = Inr ((example_algorithm [(Equity ''AAPL'', 0)])
        \<lparr>calls := [SetHoldingsC (Equity ''AAPL'') (1/2),
                   DebugC [Lit ''Bought '', SymV (Equity ''AAPL''), Lit '' - Patents Filed: '',
                           IntV 1, Lit '', Tech Diversity: '', NumV 0.5]]\<rparr>)
   \<and> GrantedPatentsDataAlgorithm_OnData (example_algorithm [(Equity ''AAPL'', 10)])
      (example_slice (example_record 5 100 0.8))
    = Inr (example_algorithm [(Equity ''AAPL'', 10)])"
  using OnData_patents_filed [of "example_slice (example_record 5 100 0.8)"
      "example_algorithm [(Equity ''AAPL'', 0)]" "example_record 5 100 0.8"]
    OnData_patents_filed [of "example_slice (example_record 1 100 0.5)"
      "example_algorithm [(Equity ''AAPL'', 0)]" "example_record 1 100 0.5"]
    OnData_patents_filed [of "example_slice (example_record 5 100 0.8)"
      "example_algorithm [(Equity ''AAPL'', 10)]" "example_record 5 100 0.8"]
  by (simp add: example_record_def example_slice_def example_algorithm_def Invested_def
      GrantedPatentsDataAlgorithm_Initialize_def Portfolio_Invested_def)

text \<open>
  C1 as stated fails: with 5 patents filed and no position in the subscribed equity, but a
  position in another security of the portfolio, \<open>OnData\<close> returns the algorithm unchanged,
  so no holdings command is issued. The guard reads \<open>self.Portfolio.Invested\<close>, not
  \<open>self.Portfolio[self.equity_symbol].Invested\<close>.
\<close>

theorem OnData_position_elsewhere:
  "PatentsFiled (example_record 5 100 0.8) > 0 \<and>
   \<not> holds_position [(Equity ''AAPL'', 0), (Equity ''MSFT'', 10)] (Equity ''AAPL'') \<and>
   equity_symbol (example_algorithm [(Equity ''AAPL'', 0), (Equity ''MSFT'', 10)])
     = Equity ''AAPL'' \<and>
   GrantedPatentsDataAlgorithm_OnData
     (example_algorithm [(Equity ''AAPL'', 0), (Equity ''MSFT'', 10)])
     (example_slice (example_record 5 100 0.8))
   = Inr (example_algorithm [(Equity ''AAPL'', 0), (Equity ''MSFT'', 10)])"
  by (simp add: example_record_def example_slice_def example_algorithm_def holds_position_def
      Invested_def GrantedPatentsDataAlgorithm_Initialize_def
      GrantedPatentsDataAlgorithm_OnData_def DataDictionary_getitem_def Portfolio_Invested_def)

text \<open>
  C4: for a delivered record with \<open>PatentsFiled = 0\<close> and \<open>CumulativePatents > 0\<close>, while a
  position in the subscribed equity is held, \<open>OnData\<close> returns the algorithm unchanged: it
  issues no call at all.
\<close>

theorem OnData_hold:
  assumes "map_of data (patent_data_symbol self) = Some r"
    and "PatentsFiled r = 0" and "CumulativePatents r > 0"
    and "holds_position (Portfolio self) (equity_symbol self)"
  shows "GrantedPatentsDataAlgorithm_OnData self data = Inr self"
proof -
  from assms(1) have "data \<noteq> []" by auto
  moreover from assms(4) obtain quantity
    where "map_of (Portfolio self) (equity_symbol self) = Some quantity"
    by (auto simp: holds_position_def split: option.splits)
  ultimately show ?thesis using assms(1-3)
    by (simp add: GrantedPatentsDataAlgorithm_OnData_def DataDictionary_getitem_def
        Portfolio_getitem_def)
qed

theorem OnData_hold_witness:
  "GrantedPatentsDataAlgorithm_OnData (example_algorithm [(Equity ''AAPL'', 10)])
     (example_slice (example_record 0 100 0.8))
   = Inr (example_algorithm [(Equity ''AAPL'', 10)])"
  using OnData_hold [of "example_slice (example_record 0 100 0.8)"
      "example_algorithm [(Equity ''AAPL'', 10)]" "example_record 0 100 0.8"]
  by (simp add: example_record_def example_slice_def example_algorithm_def Invested_def
      holds_position_def GrantedPatentsDataAlgorithm_Initialize_def)

text \<open>
  C6: when the slice's patent-data collection is empty, \<open>OnData\<close> does nothing: it returns
  without an error and leaves the algorithm as it was, so that no call (holdings command or
  log line) is added.
\<close>

theorem OnData_no_data:
  "GrantedPatentsDataAlgorithm_OnData self [] = Inr self"
  by (simp add: GrantedPatentsDataAlgorithm_OnData_def)

text \<open>
  C7: on a non-empty collection the lookup under the subscribed patent-data symbol is not
  guarded: \<open>OnData\<close> fails with the dictionary's key error exactly when the collection has no
  record under that symbol. A non-empty collection without the key is a failure, not a no-op.
\<close>

theorem OnData_lookup:
  assumes "data \<noteq> []"
  shows "(GrantedPatentsDataAlgorithm_OnData self data
            = Inl (DataKeyNotFound (patent_data_symbol self)))
         = (patent_data_symbol self \<notin> fst ` set data)"
proof (cases "map_of data (patent_data_symbol self)")
  case None
  then have "patent_data_symbol self \<notin> fst ` set data"
    by (simp add: map_of_eq_None_iff)
  with assms None show ?thesis
    by (simp add: GrantedPatentsDataAlgorithm_OnData_def DataDictionary_getitem_def)
next
  case (Some r)
  then have "patent_data_symbol self \<in> fst ` set data"
    by (metis map_of_eq_None_iff option.distinct(1))
  with assms Some show ?thesis
    by (simp add: GrantedPatentsDataAlgorithm_OnData_def DataDictionary_getitem_def
        Portfolio_getitem_def Let_def split: option.splits)
qed

text \<open>A collection holding only a record under the equity's own symbol, and one with the key.\<close>

theorem OnData_lookup_witness:
  "GrantedPatentsDataAlgorithm_OnData (example_algorithm [(Equity ''AAPL'', 0)])
     [(Equity ''AAPL'', example_record 5 100 0.8)]
   = Inl (DataKeyNotFound (CustomData ''GrantedPatentsData'' (Equity ''AAPL'')))
   \<and> GrantedPatentsDataAlgorithm_OnData (example_algorithm [(Equity ''AAPL'', 0)])
     (example_slice (example_record 5 100 0.8))
   \<noteq> Inl (DataKeyNotFound (CustomData ''GrantedPatentsData'' (Equity ''AAPL'')))"
proof -
  have sym: "patent_data_symbol (example_algorithm [(Equity ''AAPL'', 0)])
      = CustomData ''GrantedPatentsData'' (Equity ''AAPL'')"
    by (simp add: example_algorithm_def GrantedPatentsDataAlgorithm_Initialize_def)
  have missing: "patent_data_symbol (example_algorithm [(Equity ''AAPL'', 0)])
      \<notin> fst ` set [(Equity ''AAPL'', example_record 5 100 0.8)]"
    by (simp add: sym)
  have present: "\<not> patent_data_symbol (example_algorithm [(Equity ''AAPL'', 0)])
      \<notin> fst ` set (example_slice (example_record 5 100 0.8))"
    by (simp add: sym example_slice_def example_record_def)
  from OnData_lookup [of "[(Equity ''AAPL'', example_record 5 100 0.8)]"
      "example_algorithm [(Equity ''AAPL'', 0)]"] missing
    OnData_lookup [of "example_slice (example_record 5 100 0.8)"
      "example_algorithm [(Equity ''AAPL'', 0)]"] present
  show ?thesis by (simp add: sym example_slice_def)
qed

text \<open>
  C9: whenever \<open>OnData\<close> returns, the calls made before it are kept, it has added at most one
  set-target-holdings command, and every such command is for the subscribed equity symbol
  with weight exactly 1/2 or exactly 1. (When \<open>OnData\<close> fails, the failing lookup comes
  before any call.)
\<close>

theorem OnData_commands:
  assumes "GrantedPatentsDataAlgorithm_OnData self data = Inr self'"
  shows "take (length (calls self)) (calls self') = calls self
     \<and> length (SetHoldings_calls (issued self self')) \<le> 1
     \<and> (\<forall>(s, w) \<in> set (SetHoldings_calls (issued self self')).
           s = equity_symbol self \<and> (w = 1/2 \<or> w = 1))"
  using assms
  by (auto simp: GrantedPatentsDataAlgorithm_OnData_def issued_def SetHoldings_def Debug_def
      Let_def split: if_splits sum.splits)

theorem OnData_commands_witness:
  "SetHoldings_calls (issued (example_algorithm [(Equity ''AAPL'', 0)])
      ((example_algorithm [(Equity ''AAPL'', 0)])
        \<lparr>calls := [SetHoldingsC (Equity ''AAPL'') 1,
                   DebugC [Lit ''Bought '', SymV (Equity ''AAPL''), Lit '' - Patents Filed: '',
                           IntV 5, Lit '', Tech Diversity: '', NumV 0.8]]\<rparr>))
   = [(Equity ''AAPL'', 1)]"
proof -
  have run: "GrantedPatentsDataAlgorithm_OnData (example_algorithm [(Equity ''AAPL'', 0)])
      (example_slice (example_record 5 100 0.8))
    = Inr ((example_algorithm [(Equity ''AAPL'', 0)])
        \<lparr>calls := [SetHoldingsC (Equity ''AAPL'') 1,
                   DebugC [Lit ''Bought '', SymV (Equity ''AAPL''), Lit '' - Patents Filed: '',
                           IntV 5, Lit '', Tech Diversity: '', NumV 0.8]]\<rparr>)"
    by (simp add: example_record_def example_slice_def example_algorithm_def Invested_def
        GrantedPatentsDataAlgorithm_Initialize_def GrantedPatentsDataAlgorithm_OnData_def
        DataDictionary_getitem_def Portfolio_Invested_def SetHoldings_def Debug_def)
  from OnData_commands [OF run] show ?thesis
    by (simp add: issued_def example_algorithm_def GrantedPatentsDataAlgorithm_Initialize_def)
qed

text \<open>
  C10, as amended: for an order event whose status is exactly \<open>Filled\<close> (the order is
  completely filled), \<open>OnOrderEvent\<close> adds exactly one debug line, which contains the
  event's symbol and its fill quantity; for an event with any other status, a partial fill
  (\<open>PartiallyFilled\<close>) included, it leaves the algorithm unchanged, so no line is emitted.
\<close>

theorem OnOrderEvent_log:
  "(Status orderEvent = Filled \<longrightarrow>
      (\<exists>line. issued self (GrantedPatentsDataAlgorithm_OnOrderEvent self orderEvent) = [DebugC line]
         \<and> SymV (Symbol orderEvent) \<in> set line \<and> NumV (FillQuantity orderEvent) \<in> set line))
   \<and> (Status orderEvent \<noteq> Filled \<longrightarrow>
        GrantedPatentsDataAlgorithm_OnOrderEvent self orderEvent = self)"
  by (simp add: GrantedPatentsDataAlgorithm_OnOrderEvent_def issued_def Debug_def)

text \<open>A complete fill of 25 shares is logged; a cancellation is not.\<close>

theorem OnOrderEvent_log_witness:
  "(\<exists>line. issued (example_algorithm [])
        (GrantedPatentsDataAlgorithm_OnOrderEvent (example_algorithm []) (example_order_event Filled))
        = [DebugC line] \<and> SymV (Equity ''AAPL'') \<in> set line \<and> NumV 25 \<in> set line)
   \<and> GrantedPatentsDataAlgorithm_OnOrderEvent (example_algorithm [])
        (example_order_event Canceled) = example_algorithm []"
  using OnOrderEvent_log [of "example_order_event Filled" "example_algorithm []"]
    OnOrderEvent_log [of "example_order_event Canceled" "example_algorithm []"]
  by (simp add: example_order_event_def)

text \<open>
  C10 as stated fails: an order event reporting a partial fill of 25 shares is a fill
  notification, yet \<open>OnOrderEvent\<close> adds no call for it, so no log line with the symbol and
  the filled quantity is emitted. The guard is \<open>orderEvent.Status == OrderStatus.Filled\<close>.
\<close>

theorem OnOrderEvent_partial_fill:
  "Status (example_order_event PartiallyFilled) = PartiallyFilled
   \<and> FillQuantity (example_order_event PartiallyFilled) = 25
   \<and> issued (example_algorithm [])
        (GrantedPatentsDataAlgorithm_OnOrderEvent (example_algorithm [])
           (example_order_event PartiallyFilled))
      = []"
  by (simp add: example_order_event_def GrantedPatentsDataAlgorithm_OnOrderEvent_def issued_def)

section \<open>Properties of the universe-selection algorithm\<close>

subsection \<open>The sort and the loops\<close>

lemma list_sort_reverse_sorted:
  "sorted_wrt (\<lambda>a b. key a \<ge> key b) (list_sort_reverse key xs)"
proof -
  have "sorted (map key (sort_key key (rev xs)))" by simp
  then have "sorted_wrt (\<lambda>a b. key a \<le> key b) (sort_key key (rev xs))"
    by (simp only: sorted_map)
  then show ?thesis
    by (simp add: list_sort_reverse_def sorted_wrt_rev)
qed

lemma list_sort_reverse_stable:
  "[x \<leftarrow> list_sort_reverse key xs. key x = k] = [x \<leftarrow> xs. key x = k]"
proof -
  have "[x \<leftarrow> list_sort_reverse key xs. key x = k]
      = rev [x \<leftarrow> sort_key key (rev xs). key x = k]"
    by (simp add: list_sort_reverse_def rev_filter)
  also have "\<dots> = rev [x \<leftarrow> rev xs. key x = k]"
    by (simp only: sort_key_stable)
  also have "\<dots> = [x \<leftarrow> xs. key x = k]"
    by (simp add: rev_filter)
  finally show ?thesis .
qed

lemma mset_list_sort_reverse: "mset (list_sort_reverse key xs) = mset xs"
  by (simp add: list_sort_reverse_def)

lemma list_sort_reverse_idem:
  "list_sort_reverse key (list_sort_reverse key xs) = list_sort_reverse key xs"
proof -
  have "sort_key key (sort_key key (rev xs)) = sort_key key (rev xs)"
    by (rule sort_key_id_if_sorted) simp
  then show ?thesis by (simp add: list_sort_reverse_def)
qed

lemma foldl_Log:
  "foldl (\<lambda>self x. Log self (line x)) self xs
     = self\<lparr>calls := calls self @ map (\<lambda>x. LogC (line x)) xs\<rparr>"
  by (induction xs arbitrary: self) (simp_all add: Log_def)

lemma foldl_SetHoldings:
  "foldl (\<lambda>self x. SetHoldings self (symb x) w) self xs
     = self\<lparr>calls := calls self @ map (\<lambda>x. SetHoldingsC (symb x) w) xs\<rparr>"
  by (induction xs arbitrary: self) (simp_all add: SetHoldings_def)

lemma SetHoldings_calls_map:
  "SetHoldings_calls (map (\<lambda>x. SetHoldingsC (symb x) w) xs) = map (\<lambda>x. (symb x, w)) xs"
  by (induction xs) simp_all

lemma OnSecuritiesChanged_calls:
  "GrantedPatentsDataUniverseAlgorithm_OnSecuritiesChanged self changes
     = self\<lparr>calls := calls self @
          LogC [Lit ''Universe changed - Added: '',
                IntV (int (length (AddedSecurities changes))),
                Lit '', Removed: '',
                IntV (int (length (RemovedSecurities changes)))]
          # map (\<lambda>security. SetHoldingsC (Symbol security)
                   (1 / real (length (AddedSecurities changes))))
              (AddedSecurities changes)\<rparr>"
  by (simp add: GrantedPatentsDataUniverseAlgorithm_OnSecuritiesChanged_def Let_def
      foldl_SetHoldings Log_def)

lemma OnSecuritiesChanged_SetHoldings_calls:
  "SetHoldings_calls
     (issued self (GrantedPatentsDataUniverseAlgorithm_OnSecuritiesChanged self changes))
   = map (\<lambda>security. (Symbol security, 1 / real (length (AddedSecurities changes))))
       (AddedSecurities changes)"
  by (simp add: OnSecuritiesChanged_calls issued_def SetHoldings_calls_map)

subsection \<open>The claims\<close>

text \<open>
  C2: for every candidate batch, \<open>UniverseSelection\<close> returns the symbols of the list
  \<open>selected\<close>, which holds exactly the records of the batch with \<open>Patents90d > 0\<close>,
  \<open>TechDiversity > 1/2\<close> and \<open>CumulativePatents > 10\<close> (as a multiset), is ordered by
  \<open>TechDiversity\<close> descending, and keeps the records of equal \<open>TechDiversity\<close> in their input
  order (for each value, the records with that value appear as in the filtered batch).
\<close>

theorem UniverseSelection_selected:
  "snd (GrantedPatentsDataUniverseAlgorithm_UniverseSelection self data)
     = map Symbol (selected data)
   \<and> mset (selected data)
       = mset [d \<leftarrow> data. Patents90d d > 0 \<and> TechDiversity d > 1/2 \<and> CumulativePatents d > 10]
   \<and> sorted_wrt (\<lambda>a b. TechDiversity a \<ge> TechDiversity b) (selected data)
   \<and> (\<forall>k. [d \<leftarrow> selected data. TechDiversity d = k]
          = [d \<leftarrow> data. (Patents90d d > 0 \<and> TechDiversity d > 1/2 \<and> CumulativePatents d > 10)
                          \<and> TechDiversity d = k])"
proof -
  have out: "snd (GrantedPatentsDataUniverseAlgorithm_UniverseSelection self data)
      = map Symbol (selected data)"
    by (simp add: GrantedPatentsDataUniverseAlgorithm_UniverseSelection_def Let_def)
  have perm: "mset (selected data)
      = mset [d \<leftarrow> data. Patents90d d > 0 \<and> TechDiversity d > 1/2 \<and> CumulativePatents d > 10]"
    by (simp add: selected_def mset_list_sort_reverse)
  have ordered: "sorted_wrt (\<lambda>a b. TechDiversity a \<ge> TechDiversity b) (selected data)"
    unfolding selected_def by (rule list_sort_reverse_sorted)
  have stable: "[d \<leftarrow> selected data. TechDiversity d = k]
      = [d \<leftarrow> data. (Patents90d d > 0 \<and> TechDiversity d > 1/2 \<and> CumulativePatents d > 10)
                      \<and> TechDiversity d = k]" for k
    by (simp add: selected_def list_sort_reverse_stable conj_commute)
  from out perm ordered stable show ?thesis by blast
qed

text \<open>
  A batch with a tie: A and D both have diversity 0.7 and come out in input order, before C;
  B fails \<open>Patents90d > 0\<close> and E fails \<open>CumulativePatents > 10\<close>.
\<close>

theorem UniverseSelection_selected_witness:
  "snd (GrantedPatentsDataUniverseAlgorithm_UniverseSelection (example_universe_algorithm [])
          example_batch)
   = [Equity ''A'', Equity ''D'', Equity ''C'']"
proof -
  have "selected example_batch
      = [example_datum ''A'' 2 0.7 20, example_datum ''D'' 3 0.7 11, example_datum ''C'' 1 0.6 15]"
    by (simp add: selected_def list_sort_reverse_def example_batch_def example_datum_def)
  with UniverseSelection_selected [of "example_universe_algorithm []" example_batch]
  show ?thesis by (simp add: example_datum_def)
qed

text \<open>
  C5: running \<open>UniverseSelection\<close> a second time on the same batch, in the algorithm the
  first run left behind (its log lines added), returns the same sequence of symbols; the
  sequence does not depend on the algorithm's state at all; and selecting again among the
  selected records changes nothing.
\<close>

theorem UniverseSelection_repeat:
  "snd (GrantedPatentsDataUniverseAlgorithm_UniverseSelection
          (fst (GrantedPatentsDataUniverseAlgorithm_UniverseSelection self data)) data)
     = snd (GrantedPatentsDataUniverseAlgorithm_UniverseSelection self data)
   \<and> snd (GrantedPatentsDataUniverseAlgorithm_UniverseSelection self' data)
     = snd (GrantedPatentsDataUniverseAlgorithm_UniverseSelection self data)
   \<and> selected (selected data) = selected data"
proof -
  have "[d \<leftarrow> selected data. Patents90d d > 0 \<and> TechDiversity d > 0.5 \<and> CumulativePatents d > 10]
      = selected data"
    by (rule filter_True) (auto simp: selected_def list_sort_reverse_def)
  then have "selected (selected data) = list_sort_reverse (\<lambda>x. TechDiversity x) (selected data)"
    by (simp add: selected_def [of "selected data"])
  also have "\<dots> = selected data"
    by (simp add: selected_def list_sort_reverse_idem)
  finally show ?thesis
    by (simp add: GrantedPatentsDataUniverseAlgorithm_UniverseSelection_def Let_def)
qed

text \<open>
  C3: \<open>OnSecuritiesChanged\<close> keeps the earlier calls; with N > 0 added securities its
  set-target-holdings commands are exactly one per added security, in order, each with
  weight 1/N; with N = 0 it issues none; and a removed security that is not also among the
  added ones gets no holdings command.
\<close>

theorem OnSecuritiesChanged_weights:
  "take (length (calls self))
      (calls (GrantedPatentsDataUniverseAlgorithm_OnSecuritiesChanged self changes)) = calls self
   \<and> (length (AddedSecurities changes) > 0 \<longrightarrow>
        SetHoldings_calls
          (issued self (GrantedPatentsDataUniverseAlgorithm_OnSecuritiesChanged self changes))
        = map (\<lambda>security. (Symbol security, 1 / real (length (AddedSecurities changes))))
            (AddedSecurities changes))
   \<and> (length (AddedSecurities changes) = 0 \<longrightarrow>
        SetHoldings_calls
          (issued self (GrantedPatentsDataUniverseAlgorithm_OnSecuritiesChanged self changes))
        = [])
   \<and> (\<forall>removed \<in> set (RemovedSecurities changes).
         Symbol removed \<notin> Symbol ` set (AddedSecurities changes) \<longrightarrow>
         Symbol removed \<notin> fst ` set (SetHoldings_calls
           (issued self (GrantedPatentsDataUniverseAlgorithm_OnSecuritiesChanged self changes))))"
proof -
  have kept: "take (length (calls self))
      (calls (GrantedPatentsDataUniverseAlgorithm_OnSecuritiesChanged self changes)) = calls self"
    by (simp add: OnSecuritiesChanged_calls)
  have "fst ` set (SetHoldings_calls
      (issued self (GrantedPatentsDataUniverseAlgorithm_OnSecuritiesChanged self changes)))
    = Symbol ` set (AddedSecurities changes)"
    by (simp add: OnSecuritiesChanged_SetHoldings_calls image_image)
  with kept show ?thesis
    by (simp add: OnSecuritiesChanged_SetHoldings_calls)
qed

text \<open>Three added and one removed security; then a change with removals only.\<close>

theorem OnSecuritiesChanged_weights_witness:
  "SetHoldings_calls (issued (example_universe_algorithm [])
      (GrantedPatentsDataUniverseAlgorithm_OnSecuritiesChanged (example_universe_algorithm [])
         example_changes))
   = [(Equity ''A'', 1/3), (Equity ''D'', 1/3), (Equity ''C'', 1/3)]
   \<and> SetHoldings_calls (issued (example_universe_algorithm [])
      (GrantedPatentsDataUniverseAlgorithm_OnSecuritiesChanged (example_universe_algorithm [])
         example_removals))
   = []
   \<and> Equity ''B'' \<notin> fst ` set (SetHoldings_calls (issued (example_universe_algorithm [])
      (GrantedPatentsDataUniverseAlgorithm_OnSecuritiesChanged (example_universe_algorithm [])
         example_changes)))"
  using OnSecuritiesChanged_weights [of "example_universe_algorithm []" example_changes]
    OnSecuritiesChanged_weights [of "example_universe_algorithm []" example_removals]
  by (simp add: example_changes_def example_removals_def)

text \<open>
  C8: \<open>Initialize\<close> writes the same settings whatever the historical query returned, and
  its only calls are log lines: the warning first, if and only if the number of historical
  entries is not 1, then one line per entry. The warning is the sole effect of the count
  check.
\<close>

theorem Initialize_history_count:
  "GrantedPatentsDataUniverseAlgorithm_Initialize self history
     = self\<lparr>UniverseSettings_Resolution := Daily, StartDate := (2022, 2, 14),
            EndDate := (2022, 2, 18), Cash := 100000,
            calls := calls self
              @ (if length history \<noteq> 1
                 then [LogC [Lit ''Warning: Expected 1 day of historical data, got '',
                             IntV (int (length history))]]
                 else [])
              @ map (\<lambda>dataForDate. LogC [Lit ''Historical universe contains '',
                                           IntV (int (length dataForDate)), Lit '' stocks''])
                  history\<rparr>
   \<and> (LogC [Lit ''Warning: Expected 1 day of historical data, got '', IntV (int (length history))]
        \<in> set (issued self (GrantedPatentsDataUniverseAlgorithm_Initialize self history)))
     = (length history \<noteq> 1)"
proof -
  have run: "GrantedPatentsDataUniverseAlgorithm_Initialize self history
     = self\<lparr>UniverseSettings_Resolution := Daily, StartDate := (2022, 2, 14),
            EndDate := (2022, 2, 18), Cash := 100000,
            calls := calls self
              @ (if length history \<noteq> 1
                 then [LogC [Lit ''Warning: Expected 1 day of historical data, got '',
                             IntV (int (length history))]]
                 else [])
              @ map (\<lambda>dataForDate. LogC [Lit ''Historical universe contains '',
                                           IntV (int (length dataForDate)), Lit '' stocks''])
                  history\<rparr>"
    unfolding GrantedPatentsDataUniverseAlgorithm_Initialize_def Let_def foldl_Log
    by (simp add: Log_def)
  have "(LogC [Lit ''Warning: Expected 1 day of historical data, got '', IntV (int (length history))]
        \<in> set (issued self (GrantedPatentsDataUniverseAlgorithm_Initialize self history)))
     = (length history \<noteq> 1)"
    by (auto simp: run issued_def)
  with run show ?thesis by blast
qed

text \<open>One day of history (no warning), and none (the warning, and the same cash setting).\<close>

theorem Initialize_history_count_witness:
  "issued (example_universe_algorithm [])
     (GrantedPatentsDataUniverseAlgorithm_Initialize (example_universe_algorithm []) [example_batch])
   = [LogC [Lit ''Historical universe contains '', IntV 5, Lit '' stocks'']]
   \<and> issued (example_universe_algorithm [])
     (GrantedPatentsDataUniverseAlgorithm_Initialize (example_universe_algorithm []) [])
   = [LogC [Lit ''Warning: Expected 1 day of historical data, got '', IntV 0]]
   \<and> Cash (GrantedPatentsDataUniverseAlgorithm_Initialize (example_universe_algorithm []) [])
     = Cash (GrantedPatentsDataUniverseAlgorithm_Initialize (example_universe_algorithm [])
         [example_batch])"
  using Initialize_history_count [of "example_universe_algorithm []" "[example_batch]"]
    Initialize_history_count [of "example_universe_algorithm []" "[]"]
  by (simp add: issued_def example_universe_algorithm_def example_batch_def)

end
